theory Spec2Isabelle
  imports Main
begin

section \<open>The adapters of \<open>semper-fi/app/adapters.py\<close>\<close>

text \<open>
  The module declares two classes. \<open>SimAdapter\<close> has the body \<open>pass\<close>.
  \<open>MilitaryOSINTAdapter\<close> has a constructor \<open>__init__(self, config)\<close> whose only
  statement is \<open>self.config = config\<close>, and a method \<open>poll(self)\<close> whose only statement
  is \<open>pass\<close>. Everything else in the file is a comment.

  Python objects are references to mutable instances, so the model keeps a heap of
  instances, each with its class and its attribute dictionary, and passes the program
  state through every operation. An exception is the \<open>Inl\<close> branch of a result.
\<close>

subsection \<open>Values, instances and the program state\<close>

datatype cls = SimAdapter | MilitaryOSINTAdapter

datatype error = TypeError | AttributeError

text \<open>
  A Python value is \<open>None\<close> or anything else. The configuration is opaque to the
  program, so the other values are a type parameter: nothing in the model inspects them.
\<close>

datatype 'a pyval = PyNone | PyVal 'a

type_synonym addr = nat

record 'a obj =
  klass :: cls
  dict :: "string \<rightharpoonup> 'a pyval"

text \<open>
  The state is the heap of instances (an address is an index into it) and \<open>world\<close>:
  whatever exists outside the program's objects (files, network, output). The type of
  the world is a parameter as well; an operation with an external effect would have to
  return a different world.
\<close>

record ('a, 'w) state =
  heap :: "'a obj list"
  world :: 'w

subsection \<open>Object primitives\<close>

text \<open>
  \<open>allocate\<close> is \<open>object.__new__\<close>: a fresh instance of the class with an empty
  attribute dictionary, at the next free address.
\<close>

definition allocate :: "cls \<Rightarrow> ('a, 'w) state \<Rightarrow> addr \<times> ('a, 'w) state" where
  "allocate k s = (length (heap s), s\<lparr>heap := heap s @ [\<lparr>klass = k, dict = Map.empty\<rparr>]\<rparr>)"

text \<open>
  \<open>setattr\<close> is the statement \<open>obj.name = value\<close> on a plain instance. Python has no
  dangling references; an address outside the heap leaves the state as it is.
\<close>

definition setattr :: "addr \<Rightarrow> string \<Rightarrow> 'a pyval \<Rightarrow> ('a, 'w) state \<Rightarrow> ('a, 'w) state" where
  "setattr a n v s =
     (if a < length (heap s)
      then s\<lparr>heap := (heap s)[a := (heap s ! a)\<lparr>dict := (dict (heap s ! a))(n \<mapsto> v)\<rparr>]\<rparr>
      else s)"

text \<open>
  \<open>getattr\<close> reads a data attribute \<open>obj.name\<close> from the instance dictionary; a name
  that is not there raises \<open>AttributeError\<close>.
\<close>

definition getattr :: "addr \<Rightarrow> string \<Rightarrow> ('a, 'w) state \<Rightarrow> error + 'a pyval" where
  "getattr a n s =
     (if a < length (heap s)
      then (case dict (heap s ! a) n of
              None \<Rightarrow> Inl AttributeError
            | Some v \<Rightarrow> Inr v)
      else Inl AttributeError)"

subsection \<open>The method bodies\<close>

text \<open>
  \<^verbatim>\<open>
  def __init__(self, config):
      self.config = config
  \<close>
  A function without a \<open>return\<close> statement returns \<open>None\<close>.
\<close>

definition MilitaryOSINTAdapter_init ::
  "addr \<Rightarrow> 'a pyval \<Rightarrow> ('a, 'w) state \<Rightarrow> error + ('a pyval \<times> ('a, 'w) state)" where
  "MilitaryOSINTAdapter_init self config s = Inr (PyNone, setattr self ''config'' config s)"

text \<open>
  \<^verbatim>\<open>
  def poll(self):
      pass
  \<close>
\<close>

definition MilitaryOSINTAdapter_poll ::
  "addr \<Rightarrow> ('a, 'w) state \<Rightarrow> error + ('a pyval \<times> ('a, 'w) state)" where
  "MilitaryOSINTAdapter_poll self s = Inr (PyNone, s)"

text \<open>
  The methods each class body defines. The body of \<open>SimAdapter\<close> is \<open>pass\<close>.
\<close>

fun methods :: "cls \<Rightarrow> string list" where
  "methods SimAdapter = []"
| "methods MilitaryOSINTAdapter = [''__init__'', ''poll'']"

subsection \<open>Calls\<close>

text \<open>
  Binding the positional arguments of a call to the parameters after \<open>self\<close>: a wrong
  number of arguments raises \<open>TypeError\<close> before the body runs. \<open>SimAdapter\<close> defines no
  \<open>__init__\<close> and inherits the one of \<open>object\<close>, which takes no argument and does
  nothing.
\<close>

fun call_init ::
  "cls \<Rightarrow> addr \<Rightarrow> 'a pyval list \<Rightarrow> ('a, 'w) state \<Rightarrow> error + ('a pyval \<times> ('a, 'w) state)" where
  "call_init MilitaryOSINTAdapter self [config] s = MilitaryOSINTAdapter_init self config s"
| "call_init MilitaryOSINTAdapter self _ s = Inl TypeError"
| "call_init SimAdapter self [] s = Inr (PyNone, s)"
| "call_init SimAdapter self _ s = Inl TypeError"

text \<open>
  \<open>construct k args\<close> is the call \<open>k(*args)\<close> of a class: allocate the instance, run
  \<open>__init__\<close> on it, and return the reference. An exception of \<open>__init__\<close> leaves
  the call; nothing catches it.
\<close>

definition construct ::
  "cls \<Rightarrow> 'a pyval list \<Rightarrow> ('a, 'w) state \<Rightarrow> error + (addr \<times> ('a, 'w) state)" where
  "construct k args s =
     (case allocate k s of
        (a, s1) \<Rightarrow>
          (case call_init k a args s1 of
             Inl e \<Rightarrow> Inl e
           | Inr (r, s2) \<Rightarrow> Inr (a, s2)))"

text \<open>
  \<open>invoke_poll a args\<close> is the call \<open>obj.poll(*args)\<close> on the instance at \<open>a\<close>.
  A function of the class is a non-data descriptor, so the lookup of \<open>obj.poll\<close> takes
  an entry \<open>poll\<close> of the instance dictionary first. Such an entry is a data value of
  this model, and calling it raises \<open>TypeError\<close> (the object is not callable). Without
  such an entry the method is found through the class, and the arguments are bound to
  the parameters after \<open>self\<close>, of which \<open>poll\<close> has none; a class that does not
  define \<open>poll\<close> raises \<open>AttributeError\<close>.
\<close>

definition invoke_poll ::
  "addr \<Rightarrow> 'a pyval list \<Rightarrow> ('a, 'w) state \<Rightarrow> error + ('a pyval \<times> ('a, 'w) state)" where
  "invoke_poll a args s =
     (if a < length (heap s)
      then (case dict (heap s ! a) ''poll'' of
              Some v \<Rightarrow> Inl TypeError
            | None \<Rightarrow>
                (if ''poll'' \<in> set (methods (klass (heap s ! a)))
                 then (case args of
                         [] \<Rightarrow> MilitaryOSINTAdapter_poll a s
                       | _ # _ \<Rightarrow> Inl TypeError)
                 else Inl AttributeError))
      else Inl AttributeError)"

text \<open>\<open>polls n a\<close> invokes \<open>poll()\<close> on the same instance \<open>n\<close> times in a row.\<close>

fun polls :: "nat \<Rightarrow> addr \<Rightarrow> ('a, 'w) state \<Rightarrow> error + ('a, 'w) state" where
  "polls 0 a s = Inr s"
| "polls (Suc n) a s =
     (case invoke_poll a [] s of
        Inl e \<Rightarrow> Inl e
      | Inr (r, s') \<Rightarrow> polls n a s')"

text \<open>
  \<open>is_adapter s a\<close>: the address is a reference into the heap to an instance of
  \<open>MilitaryOSINTAdapter\<close>.
\<close>

definition is_adapter :: "('a, 'w) state \<Rightarrow> addr \<Rightarrow> bool" where
  "is_adapter s a \<longleftrightarrow> a < length (heap s) \<and> klass (heap s ! a) = MilitaryOSINTAdapter"

text \<open>
  \<open>constructed_adapter s a\<close>: an adapter as the operations of the program leave it.
  The constructor sets the attribute \<open>config\<close> only and \<open>poll\<close> sets none, so the
  instance dictionary has no entry \<open>poll\<close> that would shadow the method.
\<close>

definition constructed_adapter :: "('a, 'w) state \<Rightarrow> addr \<Rightarrow> bool" where
  "constructed_adapter s a \<longleftrightarrow> is_adapter s a \<and> dict (heap s ! a) ''poll'' = None"

subsection \<open>The statements of the bodies\<close>

text \<open>
  To speak about what the bodies are made of, and not only about what they compute, the
  statements are also kept as syntax. The three bodies of the module use two kinds of
  statement, \<open>pass\<close> and the assignment of a parameter to an attribute of \<open>self\<close>
  (written with the value the parameter is bound to). \<open>raise\<close> and
  \<open>try: ... except: ...\<close> are the statements that raise and catch an exception.
\<close>

datatype 'a stmt =
    Pass
  | SetSelfAttr string "'a pyval"
  | Raise error
  | Try "'a stmt list" "'a stmt list"

fun has_raise :: "'a stmt \<Rightarrow> bool" where
  "has_raise Pass = False"
| "has_raise (SetSelfAttr n v) = False"
| "has_raise (Raise e) = True"
| "has_raise (Try body handler) = (list_ex has_raise body \<or> list_ex has_raise handler)"

fun has_try :: "'a stmt \<Rightarrow> bool" where
  "has_try Pass = False"
| "has_try (SetSelfAttr n v) = False"
| "has_try (Raise e) = False"
| "has_try (Try body handler) = True"

text \<open>
  Running a statement gives the exception it ends with, if any, and the state at that
  point. A block stops at the first exception; a handler runs from the state in which
  the exception was raised.
\<close>

fun exec :: "'a stmt \<Rightarrow> addr \<Rightarrow> ('a, 'w) state \<Rightarrow> error option \<times> ('a, 'w) state"
  and exec_block :: "'a stmt list \<Rightarrow> addr \<Rightarrow> ('a, 'w) state \<Rightarrow> error option \<times> ('a, 'w) state" where
  "exec Pass self s = (None, s)"
| "exec (SetSelfAttr n v) self s = (None, setattr self n v s)"
| "exec (Raise e) self s = (Some e, s)"
| "exec (Try body handler) self s =
     (case exec_block body self s of
        (None, s') \<Rightarrow> (None, s')
      | (Some e, s') \<Rightarrow> exec_block handler self s')"
| "exec_block [] self s = (None, s)"
| "exec_block (x # xs) self s =
     (case exec x self s of
        (None, s') \<Rightarrow> exec_block xs self s'
      | (Some e, s') \<Rightarrow> (Some e, s'))"

text \<open>
  A function body that ends without \<open>return\<close> returns \<open>None\<close>; an exception leaves
  the call.
\<close>

definition call_body ::
  "'a stmt list \<Rightarrow> addr \<Rightarrow> ('a, 'w) state \<Rightarrow> error + ('a pyval \<times> ('a, 'w) state)" where
  "call_body body self s =
     (case exec_block body self s of
        (None, s') \<Rightarrow> Inr (PyNone, s')
      | (Some e, s') \<Rightarrow> Inl e)"

text \<open>
  The bodies as they stand in the source: the class body of \<open>SimAdapter\<close>, and the
  bodies of \<open>__init__\<close> (with \<open>config\<close> bound) and of \<open>poll\<close>.
\<close>

definition SimAdapter_body :: "'a stmt list" where
  "SimAdapter_body = [Pass]"

definition MilitaryOSINTAdapter_init_body :: "'a pyval \<Rightarrow> 'a stmt list" where
  "MilitaryOSINTAdapter_init_body config = [SetSelfAttr ''config'' config]"

definition MilitaryOSINTAdapter_poll_body :: "'a stmt list" where
  "MilitaryOSINTAdapter_poll_body = [Pass]"

text \<open>
  Concrete states: no object at all, one adapter built from the value 7, and a second
  adapter built from the same value after the first.
\<close>

definition empty_state :: "(nat, unit) state" where
  "empty_state = \<lparr>heap = [], world = ()\<rparr>"

definition one_adapter :: "(nat, unit) state" where
  "one_adapter =
     \<lparr>heap = [\<lparr>klass = MilitaryOSINTAdapter, dict = [''config'' \<mapsto> PyVal 7]\<rparr>], world = ()\<rparr>"

definition two_adapters :: "(nat, unit) state" where
  "two_adapters =
     \<lparr>heap = [\<lparr>klass = MilitaryOSINTAdapter, dict = [''config'' \<mapsto> PyVal 7]\<rparr>,
              \<lparr>klass = MilitaryOSINTAdapter, dict = [''config'' \<mapsto> PyVal 7]\<rparr>],
      world = ()\<rparr>"

section \<open>Properties\<close>

subsection \<open>Auxiliary facts\<close>

lemma construct_MilitaryOSINTAdapter:
  "construct MilitaryOSINTAdapter [c] s =
     Inr (length (heap s),
          s\<lparr>heap := heap s @ [\<lparr>klass = MilitaryOSINTAdapter, dict = [''config'' \<mapsto> c]\<rparr>]\<rparr>)"
  by (simp add: construct_def allocate_def MilitaryOSINTAdapter_init_def setattr_def)

lemma construct_SimAdapter:
  "construct SimAdapter [] s =
     Inr (length (heap s), s\<lparr>heap := heap s @ [\<lparr>klass = SimAdapter, dict = Map.empty\<rparr>]\<rparr>)"
  by (simp add: construct_def allocate_def)

lemma invoke_poll_adapter:
  "constructed_adapter s a \<Longrightarrow> invoke_poll a [] s = Inr (PyNone, s)"
  by (simp add: constructed_adapter_def is_adapter_def invoke_poll_def
      MilitaryOSINTAdapter_poll_def)

lemma invoke_poll_extra_argument:
  "constructed_adapter s a \<Longrightarrow> invoke_poll a (x # xs) s = Inl TypeError"
  by (simp add: constructed_adapter_def is_adapter_def invoke_poll_def)

text \<open>
  An instance attribute \<open>poll\<close> shadows the method: the call then raises, whatever the
  class of the instance.
\<close>

lemma invoke_poll_shadowed:
  "a < length (heap s) \<Longrightarrow> dict (heap s ! a) ''poll'' = Some v \<Longrightarrow>
     invoke_poll a args s = Inl TypeError"
  by (simp add: invoke_poll_def)

lemma construct_one_adapter:
  "construct MilitaryOSINTAdapter [PyVal 7] empty_state = Inr (0, one_adapter)"
  by (simp add: construct_MilitaryOSINTAdapter empty_state_def one_adapter_def)

lemma constructed_one_adapter: "constructed_adapter one_adapter 0"
  by (simp add: constructed_adapter_def is_adapter_def one_adapter_def)

lemma construct_no_argument:
  "construct MilitaryOSINTAdapter [] s = Inl TypeError"
  by (simp add: construct_def allocate_def)

lemma construct_many_arguments:
  "construct MilitaryOSINTAdapter (x # y # zs) s = Inl TypeError"
  by (simp add: construct_def allocate_def)

text \<open>
  What construction returns is a constructed adapter, and it stays one, unchanged,
  through every later construction and every poll.
\<close>

lemma constructed_adapter_construct:
  "construct MilitaryOSINTAdapter [c] s = Inr (a, s') \<Longrightarrow> constructed_adapter s' a"
  by (auto simp: construct_MilitaryOSINTAdapter constructed_adapter_def is_adapter_def)

lemma construct_Inr_cases:
  assumes "construct k args s = Inr (b, s')"
  shows "b = length (heap s) \<and> (\<exists>d. s' = s\<lparr>heap := heap s @ [\<lparr>klass = k, dict = d\<rparr>]\<rparr>)"
proof (cases k)
  case SimAdapter
  with assms have "args = []"
    by (cases args) (simp_all add: construct_def allocate_def)
  with SimAdapter assms show ?thesis
    by (auto simp: construct_SimAdapter)
next
  case MilitaryOSINTAdapter
  have "\<exists>c. args = [c]"
  proof (cases args)
    case Nil
    with MilitaryOSINTAdapter assms show ?thesis
      by (simp add: construct_no_argument)
  next
    case (Cons x xs)
    with MilitaryOSINTAdapter assms show ?thesis
      by (cases xs) (simp_all add: construct_many_arguments)
  qed
  then obtain c where "args = [c]" ..
  with MilitaryOSINTAdapter assms show ?thesis
    by (auto simp: construct_MilitaryOSINTAdapter)
qed

lemma constructed_adapter_construct_other:
  assumes "constructed_adapter s a" and "construct k args s = Inr (b, s')"
  shows "constructed_adapter s' a \<and> heap s' ! a = heap s ! a"
proof -
  from assms(2) obtain d where "s' = s\<lparr>heap := heap s @ [\<lparr>klass = k, dict = d\<rparr>]\<rparr>"
    using construct_Inr_cases by blast
  with assms(1) show ?thesis
    by (simp add: constructed_adapter_def is_adapter_def nth_append)
qed

lemma constructed_adapter_poll:
  assumes "constructed_adapter s a" and "constructed_adapter s b"
    and "invoke_poll b args s = Inr (v, s')"
  shows "constructed_adapter s' a"
proof (cases args)
  case Nil
  with assms show ?thesis
    by (simp add: invoke_poll_adapter)
next
  case (Cons x xs)
  with assms show ?thesis
    by (simp add: invoke_poll_extra_argument)
qed

lemma polls_adapter: "constructed_adapter s a \<Longrightarrow> polls n a s = Inr s"
  by (induction n) (simp_all add: invoke_poll_adapter)

text \<open>The bodies kept as syntax compute what the functions of the model compute.\<close>

lemma call_init_body:
  "call_body (MilitaryOSINTAdapter_init_body c) self s = MilitaryOSINTAdapter_init self c s"
  by (simp add: call_body_def MilitaryOSINTAdapter_init_body_def MilitaryOSINTAdapter_init_def)

lemma call_poll_body:
  "call_body MilitaryOSINTAdapter_poll_body self s = MilitaryOSINTAdapter_poll self s"
  by (simp add: call_body_def MilitaryOSINTAdapter_poll_body_def MilitaryOSINTAdapter_poll_def)

lemma construct_two_adapters:
  "construct MilitaryOSINTAdapter [PyVal 7] one_adapter = Inr (1, two_adapters)"
  by (simp add: construct_MilitaryOSINTAdapter one_adapter_def two_adapters_def)

lemma constructed_two_adapters: "constructed_adapter two_adapters 1"
  by (simp add: constructed_adapter_def is_adapter_def two_adapters_def)

lemma same_obj_one_two: "heap one_adapter ! 0 = heap two_adapters ! 1"
  by (simp add: one_adapter_def two_adapters_def)

subsection \<open>Construction\<close>

text \<open>
  C1. For every configuration value \<open>c\<close>, constructing \<open>MilitaryOSINTAdapter\<close> with \<open>c\<close>
  stores \<open>c\<close> unchanged: the construction returns an adapter, and reading its \<open>config\<close>
  attribute in the state after construction returns exactly \<open>c\<close>.
\<close>

theorem MilitaryOSINTAdapter_stores_config:
  "\<exists>a s'. construct MilitaryOSINTAdapter [c] s = Inr (a, s') \<and> getattr a ''config'' s' = Inr c"
  by (simp add: construct_MilitaryOSINTAdapter getattr_def)

text \<open>
  C2. For every configuration value \<open>c\<close>, of any type and shape (the value type is a
  parameter, and \<open>None\<close> is a value too), constructing \<open>MilitaryOSINTAdapter\<close> with
  \<open>c\<close> succeeds, from any state, and raises no exception.
\<close>

theorem MilitaryOSINTAdapter_construct_total:
  "(\<exists>a s'. construct MilitaryOSINTAdapter [c] s = Inr (a, s')) \<and>
   (\<forall>e. construct MilitaryOSINTAdapter [c] s \<noteq> Inl e)"
  by (simp add: construct_MilitaryOSINTAdapter)

text \<open>
  C8. The configuration argument of the constructor is mandatory and has no default:
  constructing \<open>MilitaryOSINTAdapter\<close> with zero arguments raises \<open>TypeError\<close> and
  produces no adapter. More generally the construction succeeds exactly when it is given
  one argument.
\<close>

theorem MilitaryOSINTAdapter_config_mandatory:
  "construct MilitaryOSINTAdapter [] s = Inl TypeError \<and>
   (\<forall>a s'. construct MilitaryOSINTAdapter [] s \<noteq> Inr (a, s')) \<and>
   ((\<exists>r. construct MilitaryOSINTAdapter args s = Inr r) \<longleftrightarrow> length args = 1)"
proof -
  have "(\<exists>r. construct MilitaryOSINTAdapter args s = Inr r) \<longleftrightarrow> length args = 1"
  proof (cases args)
    case Nil
    then show ?thesis by (simp add: construct_no_argument)
  next
    case (Cons x xs)
    then show ?thesis
      by (cases xs) (simp_all add: construct_MilitaryOSINTAdapter construct_many_arguments)
  qed
  then show ?thesis by (simp add: construct_no_argument)
qed

text \<open>
  C10. Constructing \<open>MilitaryOSINTAdapter\<close> with a configuration value sets exactly one
  attribute, \<open>config\<close>, and nothing else: the new instance's attribute dictionary has
  the single key \<open>config\<close>, every instance that existed before is as it was, and the
  world is as it was. \<open>SimAdapter\<close> is constructible with no arguments; its instance
  carries no attribute, and its class defines no operation (so \<open>poll()\<close> on it raises
  \<open>AttributeError\<close>).
\<close>

theorem construct_frame:
  "(\<exists>a s'. construct MilitaryOSINTAdapter [c] s = Inr (a, s') \<and>
      klass (heap s' ! a) = MilitaryOSINTAdapter \<and>
      dom (dict (heap s' ! a)) = {''config''} \<and>
      length (heap s') = Suc (length (heap s)) \<and>
      take (length (heap s)) (heap s') = heap s \<and>
      world s' = world s) \<and>
   (\<exists>b t. construct SimAdapter [] s = Inr (b, t) \<and>
      klass (heap t ! b) = SimAdapter \<and>
      dom (dict (heap t ! b)) = {} \<and>
      length (heap t) = Suc (length (heap s)) \<and>
      take (length (heap s)) (heap t) = heap s \<and>
      world t = world s \<and>
      methods SimAdapter = [] \<and>
      invoke_poll b xs t = Inl AttributeError)"
  by (simp add: construct_MilitaryOSINTAdapter construct_SimAdapter invoke_poll_def)

subsection \<open>Polling\<close>

text \<open>
  C3. For every constructed \<open>MilitaryOSINTAdapter\<close> (an instance of the class whose
  method \<open>poll\<close> no instance attribute shadows, as construction leaves it), invoking
  \<open>poll()\<close> returns normally and raises no exception.
\<close>

theorem poll_returns_normally:
  "constructed_adapter s a \<Longrightarrow>
     (\<exists>v s'. invoke_poll a [] s = Inr (v, s')) \<and> (\<forall>e. invoke_poll a [] s \<noteq> Inl e)"
  by (simp add: invoke_poll_adapter)

theorem poll_returns_normally_witness:
  "constructed_adapter one_adapter 0 \<and>
   (\<exists>v s'. invoke_poll 0 [] one_adapter = Inr (v, s')) \<and>
   (\<forall>e. invoke_poll 0 [] one_adapter \<noteq> Inl e)"
  using poll_returns_normally [OF constructed_one_adapter] constructed_one_adapter by simp

text \<open>
  C4. For every constructed \<open>MilitaryOSINTAdapter\<close>, invoking \<open>poll()\<close> has no
  observable side effect: the call returns, the state after it is the state before it,
  so the heap and with it every attribute of every instance (the adapter's \<open>config\<close>
  among them) reads the same before and after, and the world outside the program is
  unchanged.
\<close>

theorem poll_no_side_effect:
  "constructed_adapter s a \<Longrightarrow>
     \<exists>v s'. invoke_poll a [] s = Inr (v, s') \<and> s' = s \<and>
       heap s' = heap s \<and> world s' = world s \<and>
       (\<forall>b n. getattr b n s' = getattr b n s)"
  by (simp add: invoke_poll_adapter)

theorem poll_no_side_effect_witness:
  "constructed_adapter one_adapter 0 \<and>
   (\<exists>v s'. invoke_poll 0 [] one_adapter = Inr (v, s') \<and> s' = one_adapter \<and>
      heap s' = heap one_adapter \<and> world s' = world one_adapter \<and>
      (\<forall>b n. getattr b n s' = getattr b n one_adapter))"
  using poll_no_side_effect [OF constructed_one_adapter] constructed_one_adapter by simp

text \<open>
  C5. For every constructed \<open>MilitaryOSINTAdapter\<close>, \<open>poll()\<close> takes no parameter
  beyond the implicit self-reference (a call with any further argument raises
  \<open>TypeError\<close>) and returns no value: its result is \<open>None\<close>.
\<close>

theorem poll_signature:
  "constructed_adapter s a \<Longrightarrow>
     (\<exists>s'. invoke_poll a [] s = Inr (PyNone, s')) \<and>
     invoke_poll a (x # xs) s = Inl TypeError"
  by (simp add: invoke_poll_adapter invoke_poll_extra_argument)

theorem poll_signature_witness:
  "constructed_adapter one_adapter 0 \<and>
   (\<exists>s'. invoke_poll 0 [] one_adapter = Inr (PyNone, s')) \<and>
   invoke_poll 0 [PyVal 1, PyNone] one_adapter = Inl TypeError"
  using poll_signature [OF constructed_one_adapter, of "PyVal 1" "[PyNone]"]
    constructed_one_adapter by simp

subsection \<open>Sequences of polls, exceptions, determinism\<close>

text \<open>
  C6. The adapter has a single state and no transitions: for every configuration value
  \<open>c\<close> and every number \<open>n\<close> of \<open>poll()\<close> invocations in a row on the adapter
  constructed with \<open>c\<close>, every invocation returns and the state after the sequence is
  the state immediately after construction.
\<close>

theorem polls_keep_constructed_state:
  "\<exists>a s'. construct MilitaryOSINTAdapter [c] s = Inr (a, s') \<and> (\<forall>n. polls n a s' = Inr s')"
proof -
  obtain a s' where made: "construct MilitaryOSINTAdapter [c] s = Inr (a, s')"
    by (simp add: construct_MilitaryOSINTAdapter)
  then have "constructed_adapter s' a"
    by (rule constructed_adapter_construct)
  then have "\<forall>n. polls n a s' = Inr s'"
    by (simp add: polls_adapter)
  with made show ?thesis
    by blast
qed

theorem polls_keep_constructed_state_witness:
  "\<exists>a s'. construct MilitaryOSINTAdapter [PyVal 7] empty_state = Inr (a, s') \<and>
     a = 0 \<and> s' = one_adapter \<and> polls 3 a s' = Inr s'"
  using polls_keep_constructed_state [of "PyVal 7" empty_state]
  by (simp add: construct_one_adapter)

text \<open>
  C7. No operation of the program raises or catches an exception. Constructing
  \<open>SimAdapter\<close>, constructing \<open>MilitaryOSINTAdapter\<close> with a configuration value and
  invoking \<open>poll()\<close> on a constructed adapter all complete without raising. No
  exception-handling branch exists in any of them: the class body of \<open>SimAdapter\<close>
  and the bodies of \<open>__init__\<close> and \<open>poll\<close> contain no \<open>try\<close> statement and no
  \<open>raise\<close> statement, and these bodies are the program the other theorems are about
  (running them is \<open>MilitaryOSINTAdapter_init\<close> and \<open>MilitaryOSINTAdapter_poll\<close>).
  A construction fails exactly when the call of \<open>__init__\<close> fails, with the same
  exception.
\<close>

theorem no_operation_raises:
  "(\<exists>r. construct SimAdapter [] s = Inr r) \<and>
   (\<exists>r. construct MilitaryOSINTAdapter [c] s = Inr r) \<and>
   (constructed_adapter s a \<longrightarrow> (\<exists>r. invoke_poll a [] s = Inr r)) \<and>
   \<not> list_ex has_try (SimAdapter_body :: 'a stmt list) \<and>
   \<not> list_ex has_raise (SimAdapter_body :: 'a stmt list) \<and>
   \<not> list_ex has_try (MilitaryOSINTAdapter_init_body c) \<and>
   \<not> list_ex has_raise (MilitaryOSINTAdapter_init_body c) \<and>
   \<not> list_ex has_try (MilitaryOSINTAdapter_poll_body :: 'a stmt list) \<and>
   \<not> list_ex has_raise (MilitaryOSINTAdapter_poll_body :: 'a stmt list) \<and>
   call_body (MilitaryOSINTAdapter_init_body c) self s = MilitaryOSINTAdapter_init self c s \<and>
   call_body MilitaryOSINTAdapter_poll_body self s = MilitaryOSINTAdapter_poll self s \<and>
   (\<forall>config e. MilitaryOSINTAdapter_init self config s \<noteq> Inl e) \<and>
   (\<forall>e. MilitaryOSINTAdapter_poll self s \<noteq> Inl e) \<and>
   (construct k args s = Inl e \<longleftrightarrow>
      call_init k (fst (allocate k s)) args (snd (allocate k s)) = Inl e)"
proof -
  have plain: "\<not> list_ex has_try (SimAdapter_body :: 'a stmt list)"
    "\<not> list_ex has_raise (SimAdapter_body :: 'a stmt list)"
    "\<not> list_ex has_try (MilitaryOSINTAdapter_init_body c)"
    "\<not> list_ex has_raise (MilitaryOSINTAdapter_init_body c)"
    "\<not> list_ex has_try (MilitaryOSINTAdapter_poll_body :: 'a stmt list)"
    "\<not> list_ex has_raise (MilitaryOSINTAdapter_poll_body :: 'a stmt list)"
    by (simp_all add: SimAdapter_body_def MilitaryOSINTAdapter_init_body_def
        MilitaryOSINTAdapter_poll_body_def)
  have calls: "\<exists>r. construct SimAdapter [] s = Inr r"
    "\<exists>r. construct MilitaryOSINTAdapter [c] s = Inr r"
    "constructed_adapter s a \<longrightarrow> (\<exists>r. invoke_poll a [] s = Inr r)"
    by (simp_all add: construct_SimAdapter construct_MilitaryOSINTAdapter invoke_poll_adapter)
  have results: "\<forall>config e. MilitaryOSINTAdapter_init self config s \<noteq> Inl e"
    "\<forall>e. MilitaryOSINTAdapter_poll self s \<noteq> Inl e"
    by (simp_all add: MilitaryOSINTAdapter_init_def MilitaryOSINTAdapter_poll_def)
  have passes: "construct k args s = Inl e \<longleftrightarrow>
          call_init k (fst (allocate k s)) args (snd (allocate k s)) = Inl e"
    by (simp add: construct_def split: prod.splits sum.splits)
  from plain calls results passes show ?thesis
    using call_init_body [of c self s] call_poll_body [of self s] by blast
qed

theorem no_operation_raises_witness:
  "constructed_adapter one_adapter 0 \<and>
   (\<exists>r. construct SimAdapter [] one_adapter = Inr r) \<and>
   (\<exists>r. construct MilitaryOSINTAdapter [PyNone] one_adapter = Inr r) \<and>
   (\<exists>r. invoke_poll 0 [] one_adapter = Inr r) \<and>
   \<not> list_ex has_try (MilitaryOSINTAdapter_init_body (PyNone :: nat pyval)) \<and>
   \<not> list_ex has_raise (MilitaryOSINTAdapter_init_body (PyNone :: nat pyval)) \<and>
   call_body (MilitaryOSINTAdapter_init_body PyNone) 0 one_adapter =
     MilitaryOSINTAdapter_init 0 PyNone one_adapter \<and>
   call_body MilitaryOSINTAdapter_poll_body 0 one_adapter =
     MilitaryOSINTAdapter_poll 0 one_adapter"
  using no_operation_raises [where s = one_adapter and a = 0 and c = PyNone
      and self = 0 and k = MilitaryOSINTAdapter and args = "[]" and e = TypeError]
    constructed_one_adapter
  by blast

text \<open>
  C9. Construction and polling are deterministic. Two adapters constructed from the same
  configuration value, from whatever states, are both constructed adapters and identical
  instances (same class, same attributes). Two invocations of \<open>poll()\<close> on constructed
  adapters that are identical instances, in whatever states, both return \<open>None\<close> and
  both leave their state as it was, so the two adapters are identical afterwards as
  well.
\<close>

theorem construct_poll_deterministic:
  "(\<exists>a1 t1 a2 t2.
      construct MilitaryOSINTAdapter [c] s1 = Inr (a1, t1) \<and>
      construct MilitaryOSINTAdapter [c] s2 = Inr (a2, t2) \<and>
      constructed_adapter t1 a1 \<and> constructed_adapter t2 a2 \<and>
      heap t1 ! a1 = heap t2 ! a2) \<and>
   (constructed_adapter u1 b1 \<and> constructed_adapter u2 b2 \<and> heap u1 ! b1 = heap u2 ! b2 \<longrightarrow>
      (\<exists>u1' u2'. invoke_poll b1 [] u1 = Inr (PyNone, u1') \<and>
                 invoke_poll b2 [] u2 = Inr (PyNone, u2') \<and>
                 u1' = u1 \<and> u2' = u2 \<and>
                 heap u1' ! b1 = heap u1 ! b1 \<and>
                 heap u2' ! b2 = heap u2 ! b2 \<and>
                 heap u1' ! b1 = heap u2' ! b2))"
proof (intro conjI impI)
  obtain a1 t1 where c1: "construct MilitaryOSINTAdapter [c] s1 = Inr (a1, t1)"
    by (simp add: construct_MilitaryOSINTAdapter)
  obtain a2 t2 where c2: "construct MilitaryOSINTAdapter [c] s2 = Inr (a2, t2)"
    by (simp add: construct_MilitaryOSINTAdapter)
  from c1 c2 have "heap t1 ! a1 = heap t2 ! a2"
    by (auto simp: construct_MilitaryOSINTAdapter)
  moreover from c1 have "constructed_adapter t1 a1"
    by (rule constructed_adapter_construct)
  moreover from c2 have "constructed_adapter t2 a2"
    by (rule constructed_adapter_construct)
  ultimately show "\<exists>a1 t1 a2 t2.
      construct MilitaryOSINTAdapter [c] s1 = Inr (a1, t1) \<and>
      construct MilitaryOSINTAdapter [c] s2 = Inr (a2, t2) \<and>
      constructed_adapter t1 a1 \<and> constructed_adapter t2 a2 \<and>
      heap t1 ! a1 = heap t2 ! a2"
    using c1 c2 by blast
next
  assume same: "constructed_adapter u1 b1 \<and> constructed_adapter u2 b2 \<and>
    heap u1 ! b1 = heap u2 ! b2"
  then have "invoke_poll b1 [] u1 = Inr (PyNone, u1)"
    by (simp add: invoke_poll_adapter)
  moreover from same have "invoke_poll b2 [] u2 = Inr (PyNone, u2)"
    by (simp add: invoke_poll_adapter)
  ultimately show "\<exists>u1' u2'. invoke_poll b1 [] u1 = Inr (PyNone, u1') \<and>
                 invoke_poll b2 [] u2 = Inr (PyNone, u2') \<and>
                 u1' = u1 \<and> u2' = u2 \<and>
                 heap u1' ! b1 = heap u1 ! b1 \<and>
                 heap u2' ! b2 = heap u2 ! b2 \<and>
                 heap u1' ! b1 = heap u2' ! b2"
    using same by simp
qed

theorem construct_poll_deterministic_witness:
  "(\<exists>a1 t1 a2 t2.
      construct MilitaryOSINTAdapter [PyVal 7] empty_state = Inr (a1, t1) \<and>
      construct MilitaryOSINTAdapter [PyVal 7] one_adapter = Inr (a2, t2) \<and>
      constructed_adapter t1 a1 \<and> constructed_adapter t2 a2 \<and>
      heap t1 ! a1 = heap t2 ! a2) \<and>
   constructed_adapter one_adapter 0 \<and> constructed_adapter two_adapters 1 \<and>
   heap one_adapter ! 0 = heap two_adapters ! 1 \<and>
   (\<exists>u1' u2'. invoke_poll 0 [] one_adapter = Inr (PyNone, u1') \<and>
              invoke_poll 1 [] two_adapters = Inr (PyNone, u2') \<and>
              u1' = one_adapter \<and> u2' = two_adapters \<and>
              heap u1' ! 0 = heap one_adapter ! 0 \<and>
              heap u2' ! 1 = heap two_adapters ! 1 \<and>
              heap u1' ! 0 = heap u2' ! 1)"
  using construct_poll_deterministic [where c = "PyVal 7" and ?s1.0 = empty_state
      and ?s2.0 = one_adapter and ?u1.0 = one_adapter and ?b1.0 = 0
      and ?u2.0 = two_adapters and ?b2.0 = 1]
    constructed_one_adapter constructed_two_adapters same_obj_one_two
  by simp

end
